theory Spec2Isabelle
  imports Complex_Main "HOL-Library.Word"
begin

unbundle bit_operations_syntax

section \<open>Machine model\<close>

text \<open>
  The allocator of \<^verbatim>\<open>src/src/sfmm.c\<close> works on a flat 64-bit address space.
  Every access it makes is an 8-byte word (a header, a footer or a list link), so the
  store maps the byte address of a word to the word. Words at distinct addresses are
  independent, which is exact for the 8-byte aligned addresses the allocator computes
  from an aligned block pointer.

  \<^verbatim>\<open>abort()\<close> and a memory fault end the process; both are results of the model.
  The page at address 0 is never mapped, so an access through a null pointer (at any
  field offset) is a fault.
\<close>

type_synonym addr = "64 word"

datatype error = Abort | Segfault

record state =
  mem :: "addr \<Rightarrow> 64 word"
  mem_start :: addr
  mem_end :: addr
  pages_left :: nat
  MAGIC :: "64 word"
  sf_free_list_heads :: addr
  quick_length :: "int list"
  quick_first :: "addr list"
  sf_errno :: int
  sf_current_payload :: "64 word"
  sf_peak_payload :: "64 word"

text \<open>
  Modelled from the spec: the header \<^verbatim>\<open>sfmm.h\<close> is not among the sources. Its
  constants are the ones the specification fixes (page size 4096, ten free lists, ten
  quick lists of capacity five, \<^verbatim>\<open>ALLOCATED\<close> in bit 0 and \<^verbatim>\<open>IN_QUICK_LIST\<close> in
  bit 2 of a header), and a block is the header word followed by the two links
  \<^verbatim>\<open>next\<close> and \<^verbatim>\<open>prev\<close>, which share their place with the payload.
\<close>

definition PAGE_SZ :: "64 word" where "PAGE_SZ = 4096"
definition NUM_FREE_LISTS :: nat where "NUM_FREE_LISTS = 10"
definition NUM_QUICK_LISTS :: nat where "NUM_QUICK_LISTS = 10"
definition QUICK_LIST_MAX :: int where "QUICK_LIST_MAX = 5"
definition THIS_BLOCK_ALLOCATED :: "64 word" where "THIS_BLOCK_ALLOCATED = 1"
definition IN_QUICK_LIST :: "64 word" where "IN_QUICK_LIST = 4"
definition ENOMEM :: int where "ENOMEM = 12"
definition EINVAL :: int where "EINVAL = 22"
definition NULL :: addr where "NULL = 0"

definition next_field :: "addr \<Rightarrow> addr" where "next_field b = b + 8"
definition prev_field :: "addr \<Rightarrow> addr" where "prev_field b = b + 16"
definition payload_field :: "addr \<Rightarrow> addr" where "payload_field b = b + 8"

definition sentinel :: "state \<Rightarrow> nat \<Rightarrow> addr" where
  "sentinel s i = sf_free_list_heads s + 24 * of_nat i"

definition null_page :: "addr \<Rightarrow> bool" where
  "null_page a \<longleftrightarrow> a < 4096"

definition load :: "state \<Rightarrow> addr \<Rightarrow> error + 64 word" where
  "load s a = (if null_page a then Inl Segfault else Inr (mem s a))"

definition store :: "state \<Rightarrow> addr \<Rightarrow> 64 word \<Rightarrow> error + state" where
  "store s a v = (if null_page a then Inl Segfault else Inr (s\<lparr>mem := (mem s)(a := v)\<rparr>))"

definition bnd :: "error + 'a \<Rightarrow> ('a \<Rightarrow> error + 'b) \<Rightarrow> error + 'b" where
  "bnd m f = (case m of Inl e \<Rightarrow> Inl e | Inr x \<Rightarrow> f x)"

definition pbnd :: "(error + 'a) option \<Rightarrow> ('a \<Rightarrow> (error + 'b) option) \<Rightarrow> (error + 'b) option" where
  "pbnd m f = (case m of None \<Rightarrow> None | Some r \<Rightarrow> (case r of Inl e \<Rightarrow> Some (Inl e) | Inr x \<Rightarrow> f x))"

text \<open>
  Modelled from the spec: the page provider is outside the sources. \<^verbatim>\<open>sf_mem_grow\<close>
  extends the heap by exactly one page and returns the address where the new page
  begins, or null when it has no page left to give.
\<close>

definition sf_mem_grow :: "state \<Rightarrow> state \<times> addr" where
  "sf_mem_grow s =
     (if pages_left s = 0 then (s, NULL)
      else (s\<lparr>mem_end := mem_end s + PAGE_SZ, pages_left := pages_left s - 1\<rparr>, mem_end s))"

section \<open>Helper routines\<close>

function index_loop :: "64 word \<Rightarrow> nat \<Rightarrow> 64 word \<Rightarrow> nat" where
  "index_loop current_class_size current_index total_block_size =
     (if current_class_size < total_block_size \<and> current_index < NUM_FREE_LISTS - 1
      then index_loop (push_bit 1 current_class_size) (current_index + 1) total_block_size
      else current_index)"
  by pat_completeness auto
termination
  by (relation "measure (\<lambda>(c, i, t). NUM_FREE_LISTS - 1 - i)") auto

definition get_free_list_index_for_size :: "64 word \<Rightarrow> nat" where
  "get_free_list_index_for_size total_block_size =
     (if total_block_size \<le> 32 then 0 else index_loop 32 0 total_block_size)"

function init_sentinels_from :: "state \<Rightarrow> nat \<Rightarrow> error + state" where
  "init_sentinels_from s list_index =
     (if list_index < NUM_FREE_LISTS then
        bnd (store s (next_field (sentinel s list_index)) (sentinel s list_index)) (\<lambda>s1.
        bnd (store s1 (prev_field (sentinel s list_index)) (sentinel s list_index)) (\<lambda>s2.
        bnd (store s2 (sentinel s list_index) 0) (\<lambda>s3.
        init_sentinels_from s3 (list_index + 1))))
      else Inr s)"
  by pat_completeness auto
termination
  by (relation "measure (\<lambda>(s, i). NUM_FREE_LISTS - i)") auto

definition initialize_all_free_list_sentinels :: "state \<Rightarrow> error + state" where
  "initialize_all_free_list_sentinels s = init_sentinels_from s 0"

definition initialize_all_quick_lists :: "state \<Rightarrow> state" where
  "initialize_all_quick_lists s =
     s\<lparr>quick_length := replicate NUM_QUICK_LISTS 0, quick_first := replicate NUM_QUICK_LISTS NULL\<rparr>"

definition calculate_aligned_block_size :: "64 word \<Rightarrow> 64 word" where
  "calculate_aligned_block_size requested_payload_size =
     (let size_with_header_and_footer = requested_payload_size + 8 + 8;
          size_aligned_to_16 = (size_with_header_and_footer + 15) AND NOT 15
      in if size_aligned_to_16 < 32 then 32 else size_aligned_to_16)"


text \<open>
  \<^verbatim>\<open>find_first_free_block_that_fits\<close>: the walk along one circular list follows
  \<^verbatim>\<open>next\<close> links until it is back at the sentinel. On a list that does not lead
  back the walk does not end; that is the value \<open>None\<close>. A walk that ends without a
  fit yields \<open>Inr None\<close>.
\<close>

partial_function (option) walk_free_list ::
    "state \<Rightarrow> addr \<Rightarrow> addr \<Rightarrow> 64 word \<Rightarrow> (error + addr option) option" where
  "walk_free_list s sentinel_node current_block required_total_block_size =
     (if current_block \<noteq> sentinel_node then
        (case load s current_block of
           Inl e \<Rightarrow> Some (Inl e)
         | Inr header \<Rightarrow>
             let current_block_size = (header XOR MAGIC s) AND NOT 15 in
             if current_block_size \<ge> required_total_block_size then Some (Inr (Some current_block))
             else (case load s (next_field current_block) of
                     Inl e \<Rightarrow> Some (Inl e)
                   | Inr nxt \<Rightarrow> walk_free_list s sentinel_node nxt required_total_block_size))
      else Some (Inr None))"

declare walk_free_list.simps [code]

function search_free_lists :: "state \<Rightarrow> nat \<Rightarrow> 64 word \<Rightarrow> (error + addr) option" where
  "search_free_lists s current_index required_total_block_size =
     (if current_index < NUM_FREE_LISTS then
        (case load s (next_field (sentinel s current_index)) of
           Inl e \<Rightarrow> Some (Inl e)
         | Inr first \<Rightarrow>
            (case walk_free_list s (sentinel s current_index) first required_total_block_size of
               None \<Rightarrow> None
             | Some (Inl e) \<Rightarrow> Some (Inl e)
             | Some (Inr (Some found)) \<Rightarrow> Some (Inr found)
             | Some (Inr None) \<Rightarrow>
                 search_free_lists s (current_index + 1) required_total_block_size))
      else Some (Inr NULL))"
  by pat_completeness auto
termination
  by (relation "measure (\<lambda>(s, i, r). NUM_FREE_LISTS - i)") auto

definition find_first_free_block_that_fits :: "state \<Rightarrow> 64 word \<Rightarrow> (error + addr) option" where
  "find_first_free_block_that_fits s required_total_block_size =
     search_free_lists s (get_free_list_index_for_size required_total_block_size)
       required_total_block_size"

definition insert_block_into_free_list :: "state \<Rightarrow> addr \<Rightarrow> error + state" where
  "insert_block_into_free_list s free_block =
     bnd (load s free_block) (\<lambda>header.
     let header_unmasked = header XOR MAGIC s;
         block_size = header_unmasked AND NOT 15;
         new_header = block_size XOR MAGIC s
     in
     bnd (store s free_block new_header) (\<lambda>s1.
     bnd (store s1 (free_block + block_size - 8) new_header) (\<lambda>s2.
     let index = get_free_list_index_for_size block_size;
         sentinel_node = sentinel s2 index
     in
     bnd (load s2 (next_field sentinel_node)) (\<lambda>sentinel_next.
     bnd (store s2 (next_field free_block) sentinel_next) (\<lambda>s3.
     bnd (store s3 (prev_field free_block) sentinel_node) (\<lambda>s4.
     bnd (load s4 (next_field sentinel_node)) (\<lambda>sentinel_next'.
     bnd (store s4 (prev_field sentinel_next') free_block) (\<lambda>s5.
     store s5 (next_field sentinel_node) free_block))))))))"

definition split_free_block_if_necessary :: "state \<Rightarrow> addr \<Rightarrow> 64 word \<Rightarrow> error + state" where
  "split_free_block_if_necessary s free_block needed_size =
     bnd (load s free_block) (\<lambda>header.
     let free_block_header_unmasked = header XOR MAGIC s;
         free_block_total_size = free_block_header_unmasked AND NOT 15;
         remaining_block_size = free_block_total_size - needed_size
     in
     if remaining_block_size < 32 then Inr s
     else
       let new_free_block = free_block + needed_size;
           new_free_header = (push_bit 32 0) OR remaining_block_size
       in
       bnd (store s new_free_block (new_free_header XOR MAGIC s)) (\<lambda>s1.
       bnd (load s1 new_free_block) (\<lambda>encoded.
       bnd (store s1 (new_free_block + remaining_block_size - 8) encoded) (\<lambda>s2.
       bnd (insert_block_into_free_list s2 new_free_block) (\<lambda>s3.
       let payload_size = needed_size - 16;
           alloc_header = (push_bit 32 payload_size) OR (needed_size OR THIS_BLOCK_ALLOCATED)
       in
       bnd (store s3 free_block (alloc_header XOR MAGIC s3)) (\<lambda>s4.
       bnd (load s4 free_block) (\<lambda>encoded'.
       store s4 (free_block + needed_size - 8) encoded')))))))"

definition remove_block_from_free_list :: "state \<Rightarrow> addr \<Rightarrow> error + state" where
  "remove_block_from_free_list s block_to_remove =
     (if block_to_remove = NULL then Inl Abort
      else
        bnd (load s (prev_field block_to_remove)) (\<lambda>previous_block.
        bnd (load s (next_field block_to_remove)) (\<lambda>next_block.
        if previous_block = NULL \<or> next_block = NULL then Inl Abort
        else
          bnd (if previous_block \<noteq> block_to_remove
               then store s (next_field previous_block) next_block else Inr s) (\<lambda>s1.
          if next_block \<noteq> block_to_remove
          then store s1 (prev_field next_block) previous_block else Inr s1))))"

definition mark_block_as_allocated :: "state \<Rightarrow> addr \<Rightarrow> 64 word \<Rightarrow> 64 word \<Rightarrow> error + state" where
  "mark_block_as_allocated s allocated_block final_size requested_payload_size =
     bnd (load s allocated_block) (\<lambda>header.
     let unmasked_header = header XOR MAGIC s;
         lower = unmasked_header AND 0xFFFFFFFF;
         flags = lower AND 0xF;
         new_header = (push_bit 32 requested_payload_size) OR
                      (final_size OR (flags AND IN_QUICK_LIST) OR THIS_BLOCK_ALLOCATED)
     in
     bnd (store s allocated_block (new_header XOR MAGIC s)) (\<lambda>s1.
     bnd (load s1 allocated_block) (\<lambda>encoded.
     bnd (store s1 (allocated_block + final_size - 8) encoded) (\<lambda>s2.
     let next_block = allocated_block + final_size in
     bnd (if next_block < mem_end s2 then
            bnd (load s2 next_block) (\<lambda>next_header.
            let next_unmasked = (next_header XOR MAGIC s2) AND NOT IN_QUICK_LIST in
            store s2 next_block (next_unmasked XOR MAGIC s2))
          else Inr s2) (\<lambda>s3.
     let s4 = s3\<lparr>sf_current_payload := sf_current_payload s3 + requested_payload_size\<rparr> in
     Inr (if sf_current_payload s4 > sf_peak_payload s4
          then s4\<lparr>sf_peak_payload := sf_current_payload s4\<rparr> else s4))))))"

definition extend_heap_by_one_page :: "state \<Rightarrow> error + state \<times> addr" where
  "extend_heap_by_one_page s =
     (case sf_mem_grow s of (s0, new_page_start) \<Rightarrow>
      if new_page_start = NULL then Inr (s0\<lparr>sf_errno := ENOMEM\<rparr>, NULL)
      else
        let new_free_block = new_page_start - 8;
            new_block_size = PAGE_SZ
        in
        bnd (load s0 (new_free_block - 8)) (\<lambda>prev_header.
        let prev_header_unmasked = prev_header XOR MAGIC s0 in
        bnd (if prev_header_unmasked AND THIS_BLOCK_ALLOCATED = 0 then
               let prev_block_size = prev_header_unmasked AND NOT 15;
                   prev_block = new_free_block - prev_block_size
               in bnd (remove_block_from_free_list s0 prev_block) (\<lambda>s1.
                  Inr (s1, prev_block, new_block_size + prev_block_size))
             else Inr (s0, NULL, new_block_size)) (\<lambda>(s1, prev_block, new_block_size).
        let final_free_block = (if prev_block \<noteq> NULL then prev_block else new_free_block) in
        bnd (store s1 final_free_block (new_block_size XOR MAGIC s1)) (\<lambda>s2.
        bnd (load s2 final_free_block) (\<lambda>encoded.
        bnd (store s2 (final_free_block + new_block_size - 8) encoded) (\<lambda>s3.
        bnd (store s3 (mem_end s3 - 8) ((8 OR THIS_BLOCK_ALLOCATED) XOR MAGIC s3)) (\<lambda>s4.
        bnd (insert_block_into_free_list s4 final_free_block) (\<lambda>s5.
        Inr (s5, final_free_block)))))))))"

definition initialize_heap_during_first_call_to_sf_malloc :: "state \<Rightarrow> error + state" where
  "initialize_heap_during_first_call_to_sf_malloc s =
     (case sf_mem_grow s of (s0, heap_start) \<Rightarrow>
      if heap_start = NULL then Inr (s0\<lparr>sf_errno := ENOMEM\<rparr>)
      else
        bnd (initialize_all_free_list_sentinels s0) (\<lambda>s1.
        let s2 = initialize_all_quick_lists s1;
            prologue_block = heap_start + 8;
            prologue_header_info = 32 OR THIS_BLOCK_ALLOCATED
        in
        bnd (store s2 prologue_block (prologue_header_info XOR MAGIC s2)) (\<lambda>s3.
        let initial_free_block_size = PAGE_SZ - 32 - 8;
            initial_free_block = prologue_block + 32;
            free_block_header_info = initial_free_block_size
        in
        bnd (store s3 initial_free_block (free_block_header_info XOR MAGIC s3)) (\<lambda>s4.
        bnd (load s4 initial_free_block) (\<lambda>encoded.
        bnd (store s4 (initial_free_block + initial_free_block_size - 8) encoded) (\<lambda>s5.
        let epilogue_block = mem_end s5 - 8;
            epilogue_header_info = 8 OR THIS_BLOCK_ALLOCATED
        in
        bnd (store s5 epilogue_block (epilogue_header_info XOR MAGIC s5)) (\<lambda>s6.
        insert_block_into_free_list s6 initial_free_block)))))))"

definition coalesce_adjacent_free_blocks :: "state \<Rightarrow> addr \<Rightarrow> error + state \<times> addr" where
  "coalesce_adjacent_free_blocks s target_free_block =
     (if target_free_block = NULL then Inl Abort
      else
        bnd (load s target_free_block) (\<lambda>header.
        let decoded_header = header XOR MAGIC s;
            lower_bits = decoded_header AND 0xFFFFFFFF;
            original_size = lower_bits AND NOT 15
        in
        if original_size < 32 \<or> original_size mod 16 \<noteq> 0 then Inl Abort
        else
          bnd (if target_free_block > mem_start s + 32 then
                 let prev_footer = target_free_block - 8 in
                 if prev_footer \<ge> mem_start s then
                   bnd (load s prev_footer) (\<lambda>w.
                   let prev_footer_val = w XOR MAGIC s;
                       prev_lower = prev_footer_val AND 0xFFFFFFFF;
                       prev_size = prev_lower AND NOT 15
                   in
                   if prev_size \<ge> 32 \<and> prev_size mod 16 = 0
                      \<and> prev_lower AND THIS_BLOCK_ALLOCATED = 0
                   then
                     let prev_block = target_free_block - prev_size in
                     bnd (remove_block_from_free_list s prev_block) (\<lambda>s1.
                     Inr (s1, prev_block, original_size + prev_size))
                   else Inr (s, target_free_block, original_size))
                 else Inr (s, target_free_block, original_size)
               else Inr (s, target_free_block, original_size)) (\<lambda>(s1, base_block, total_size).
          let next_block = base_block + total_size in
          bnd (if next_block + 8 \<le> mem_end s1 then
                 bnd (load s1 next_block) (\<lambda>w.
                 let next_decoded_header = w XOR MAGIC s1;
                     next_lower = next_decoded_header AND 0xFFFFFFFF;
                     next_size = next_lower AND NOT 15
                 in
                 if next_size \<ge> 32 \<and> next_size mod 16 = 0
                    \<and> next_lower AND THIS_BLOCK_ALLOCATED = 0
                 then
                   bnd (remove_block_from_free_list s1 next_block) (\<lambda>s2.
                   Inr (s2, total_size + next_size))
                 else Inr (s1, total_size))
               else Inr (s1, total_size)) (\<lambda>(s2, total_size).
          let new_header = (push_bit 32 0) OR total_size in
          bnd (store s2 base_block (new_header XOR MAGIC s2)) (\<lambda>s3.
          let footer_loc = base_block + total_size - 8 in
          if footer_loc < mem_end s3 then
            bnd (load s3 base_block) (\<lambda>encoded.
            bnd (store s3 footer_loc encoded) (\<lambda>s4.
            Inr (s4, base_block)))
          else Inl Abort)))))"


text \<open>
  \<^verbatim>\<open>flush_quick_list\<close> loops while the list's length counter is positive. The loop is
  given as the source has it, reading the counter from the state on every round.
\<close>

partial_function (option) flush_quick_list :: "state \<Rightarrow> nat \<Rightarrow> (error + state) option" where
  "flush_quick_list s ql_index =
     (if quick_length s ! ql_index > 0 then
        let block = quick_first s ! ql_index in
        (case load s (next_field block) of
           Inl e \<Rightarrow> Some (Inl e)
         | Inr nxt \<Rightarrow>
            let s1 = s\<lparr>quick_first := (quick_first s)[ql_index := nxt],
                       quick_length := (quick_length s)[ql_index := quick_length s ! ql_index - 1]\<rparr>
            in
            (case
               bnd (load s1 block) (\<lambda>encoded_header.
               let decoded_header = encoded_header XOR MAGIC s1;
                   block_size = decoded_header AND NOT 15;
                   free_header = block_size XOR MAGIC s1
               in
               bnd (store s1 block free_header) (\<lambda>s2.
               let footer = block + block_size - 8 in
               if footer \<ge> mem_start s2 \<and> footer < mem_end s2 then
                 bnd (load s2 block) (\<lambda>encoded.
                 bnd (store s2 footer encoded) (\<lambda>s3.
                 bnd (coalesce_adjacent_free_blocks s3 block) (\<lambda>(s4, block').
                 insert_block_into_free_list s4 block')))
               else Inl Abort))
             of Inl e \<Rightarrow> Some (Inl e)
              | Inr s5 \<Rightarrow> flush_quick_list s5 ql_index))
      else Some (Inr s))"

declare flush_quick_list.simps [code]

section \<open>The public operations\<close>

text \<open>
  \<^verbatim>\<open>sf_malloc\<close>: the loop that extends the heap until a block fits. A null
  \<^verbatim>\<open>chosen_block\<close> in its result stands for the \<^verbatim>\<open>return NULL\<close> inside the loop.
\<close>

partial_function (option) extend_until_fit ::
    "state \<Rightarrow> 64 word \<Rightarrow> addr \<Rightarrow> (error + state \<times> addr) option" where
  "extend_until_fit s required_block_size chosen_block =
     (if chosen_block = NULL then
        (case extend_heap_by_one_page s of
           Inl e \<Rightarrow> Some (Inl e)
         | Inr (s1, new_block) \<Rightarrow>
             if new_block = NULL then Some (Inr (s1\<lparr>sf_errno := ENOMEM\<rparr>, NULL))
             else (case find_first_free_block_that_fits s1 required_block_size of
                     None \<Rightarrow> None
                   | Some (Inl e) \<Rightarrow> Some (Inl e)
                   | Some (Inr chosen) \<Rightarrow> extend_until_fit s1 required_block_size chosen))
      else Some (Inr (s, chosen_block)))"

declare extend_until_fit.simps [code]

definition sf_malloc :: "state \<Rightarrow> 64 word \<Rightarrow> (error + state \<times> addr) option" where
  "sf_malloc s requested_size =
     (if requested_size = 0 then Some (Inr (s, NULL))
      else
        pbnd (Some (if mem_start s = mem_end s
                    then initialize_heap_during_first_call_to_sf_malloc s else Inr s)) (\<lambda>s1.
        let required_block_size = calculate_aligned_block_size requested_size in
        pbnd (find_first_free_block_that_fits s1 required_block_size) (\<lambda>chosen_block.
        pbnd (extend_until_fit s1 required_block_size chosen_block) (\<lambda>(s2, chosen_block).
        if chosen_block = NULL then Some (Inr (s2, NULL))
        else
          Some (bnd (split_free_block_if_necessary s2 chosen_block required_block_size) (\<lambda>s3.
                bnd (remove_block_from_free_list s3 chosen_block) (\<lambda>s4.
                bnd (mark_block_as_allocated s4 chosen_block required_block_size requested_size)
                  (\<lambda>s5.
                Inr (s5, payload_field chosen_block)))))))))"

definition sf_free :: "state \<Rightarrow> addr \<Rightarrow> (error + state) option" where
  "sf_free s pp =
     (if pp = NULL then Some (Inr s)
      else
        let block = pp - 8 in
        pbnd (Some (load s block)) (\<lambda>encoded_header.
        let decoded_header = encoded_header XOR MAGIC s;
            payload_size = drop_bit 32 decoded_header;
            block_size = (decoded_header AND 0xFFFFFFFF) AND NOT 15
        in
        if block_size < 32 \<or> block_size mod 16 \<noteq> 0 then Some (Inl Abort)
        else if decoded_header AND THIS_BLOCK_ALLOCATED = 0 then Some (Inl Abort)
        else if decoded_header AND IN_QUICK_LIST \<noteq> 0 then Some (Inl Abort)
        else if block < mem_start s \<or> block \<ge> mem_end s then Some (Inl Abort)
        else
          let s1 = s\<lparr>sf_current_payload := sf_current_payload s - payload_size\<rparr>;
              max_quick_size = 32 + 16 * (of_nat NUM_QUICK_LISTS - 1)
          in
          if block_size \<le> max_quick_size then
            let ql_index = unat ((block_size - 32) div 16) in
            if ql_index \<ge> NUM_QUICK_LISTS then Some (Inl Abort)
            else
              pbnd (if quick_length s1 ! ql_index \<ge> QUICK_LIST_MAX
                    then flush_quick_list s1 ql_index else Some (Inr s1)) (\<lambda>s2.
              let new_header = (push_bit 32 payload_size) OR
                               (block_size OR THIS_BLOCK_ALLOCATED OR IN_QUICK_LIST)
              in
              Some (bnd (store s2 block (new_header XOR MAGIC s2)) (\<lambda>s3.
                    bnd (load s3 block) (\<lambda>encoded.
                    bnd (store s3 (block + block_size - 8) encoded) (\<lambda>s4.
                    bnd (store s4 (next_field block) (quick_first s4 ! ql_index)) (\<lambda>s5.
                    Inr (s5\<lparr>quick_first := (quick_first s5)[ql_index := block],
                             quick_length := (quick_length s5)[ql_index :=
                                                quick_length s5 ! ql_index + 1]\<rparr>)))))))
          else
            let new_header = (push_bit 32 payload_size) OR block_size in
            Some (bnd (store s1 block (new_header XOR MAGIC s1)) (\<lambda>s2.
                  let footer = block + block_size - 8 in
                  if footer \<ge> mem_start s2 \<and> footer < mem_end s2 then
                    bnd (load s2 block) (\<lambda>encoded.
                    bnd (store s2 footer encoded) (\<lambda>s3.
                    bnd (coalesce_adjacent_free_blocks s3 block) (\<lambda>(s4, coalesced).
                    if coalesced = NULL then Inl Abort
                    else insert_block_into_free_list s4 coalesced)))
                  else Inl Abort))))"

text \<open>
  \<^verbatim>\<open>memcpy\<close> copies \<open>n\<close> bytes. In the word store that is \<open>n div 8\<close> whole words and,
  for the remaining \<open>n mod 8\<close> bytes, the low-order bytes of one more word (the byte
  order of the machines the allocator runs on).
\<close>

fun copy_words :: "state \<Rightarrow> addr \<Rightarrow> addr \<Rightarrow> nat \<Rightarrow> error + state" where
  "copy_words s dst src 0 = Inr s"
| "copy_words s dst src (Suc k) =
     bnd (load s src) (\<lambda>w.
     bnd (store s dst w) (\<lambda>s1.
     copy_words s1 (dst + 8) (src + 8) k))"

definition memcpy :: "state \<Rightarrow> addr \<Rightarrow> addr \<Rightarrow> 64 word \<Rightarrow> error + state" where
  "memcpy s dst src n =
     bnd (copy_words s dst src (unat n div 8)) (\<lambda>s1.
     let r = unat n mod 8; tail = 8 * of_nat (unat n div 8) in
     if r = 0 then Inr s1
     else
       bnd (load s1 (src + tail)) (\<lambda>w.
       bnd (load s1 (dst + tail)) (\<lambda>old.
       let m = mask (8 * r) in
       store s1 (dst + tail) ((w AND m) OR (old AND NOT m)))))"

definition sf_realloc :: "state \<Rightarrow> addr \<Rightarrow> 64 word \<Rightarrow> (error + state \<times> addr) option" where
  "sf_realloc s pp rsize =
     (if pp = NULL then sf_malloc s rsize
      else if rsize = 0 then pbnd (sf_free s pp) (\<lambda>s1. Some (Inr (s1, NULL)))
      else if pp < mem_start s + 40 \<or> pp \<ge> mem_end s then Some (Inr (s\<lparr>sf_errno := EINVAL\<rparr>, NULL))
      else
        let block = pp - 8 in
        pbnd (Some (load s block)) (\<lambda>encoded_header.
        let decoded_header = encoded_header XOR MAGIC s in
        if decoded_header AND THIS_BLOCK_ALLOCATED = 0 \<or> decoded_header AND IN_QUICK_LIST \<noteq> 0
        then Some (Inr (s\<lparr>sf_errno := EINVAL\<rparr>, NULL))
        else
          let old_size = (decoded_header AND 0xFFFFFFFF) AND NOT 15;
              old_payload = drop_bit 32 decoded_header;
              new_size = calculate_aligned_block_size rsize
          in
          if new_size = old_size then
            let updated_header = (push_bit 32 rsize) OR (old_size OR THIS_BLOCK_ALLOCATED) in
            Some (bnd (store s block (updated_header XOR MAGIC s)) (\<lambda>s1.
                  let s2 = s1\<lparr>sf_current_payload := sf_current_payload s1 - old_payload + rsize\<rparr>;
                      s3 = (if sf_current_payload s2 > sf_peak_payload s2
                            then s2\<lparr>sf_peak_payload := sf_current_payload s2\<rparr> else s2)
                  in Inr (s3, pp)))
          else if new_size < old_size then
            let leftover_size = old_size - new_size;
                s1 = s\<lparr>sf_current_payload := sf_current_payload s - old_payload + rsize\<rparr>;
                s2 = (if sf_current_payload s1 > sf_peak_payload s1
                      then s1\<lparr>sf_peak_payload := sf_current_payload s1\<rparr> else s1)
            in
            if leftover_size \<ge> 32 then
              let resized_header = (push_bit 32 rsize) OR (new_size OR THIS_BLOCK_ALLOCATED) in
              Some (bnd (store s2 block (resized_header XOR MAGIC s2)) (\<lambda>s3.
                    bnd (load s3 block) (\<lambda>encoded.
                    bnd (store s3 (block + new_size - 8) encoded) (\<lambda>s4.
                    let leftover_block = block + new_size;
                        leftover_header = (push_bit 32 0) OR leftover_size
                    in
                    bnd (store s4 leftover_block (leftover_header XOR MAGIC s4)) (\<lambda>s5.
                    bnd (load s5 leftover_block) (\<lambda>encoded'.
                    bnd (store s5 (leftover_block + leftover_size - 8) encoded') (\<lambda>s6.
                    bnd (coalesce_adjacent_free_blocks s6 leftover_block) (\<lambda>(s7, coalesced).
                    bnd (insert_block_into_free_list s7 coalesced) (\<lambda>s8.
                    Inr (s8, pp))))))))))
            else
              let resized_header = (push_bit 32 rsize) OR (old_size OR THIS_BLOCK_ALLOCATED) in
              Some (bnd (store s2 block (resized_header XOR MAGIC s2)) (\<lambda>s3. Inr (s3, pp)))
          else
            pbnd (sf_malloc s rsize) (\<lambda>(s1, new_pp).
            if new_pp = NULL then Some (Inr (s1\<lparr>sf_errno := ENOMEM\<rparr>, NULL))
            else
              pbnd (Some (memcpy s1 new_pp pp old_payload)) (\<lambda>s2.
              pbnd (sf_free s2 pp) (\<lambda>s3.
              Some (Inr (s3, new_pp)))))))"


text \<open>
  \<^verbatim>\<open>sf_fragmentation\<close> and \<^verbatim>\<open>sf_utilization\<close> return a \<^verbatim>\<open>double\<close>; the model returns
  the exact quotient of the two unsigned totals. Like the other public operations they
  are given as state transformers, so that what they leave unchanged can be stated.
\<close>

partial_function (option) walk_heap ::
    "state \<Rightarrow> addr \<Rightarrow> 64 word \<Rightarrow> 64 word \<Rightarrow> (error + 64 word \<times> 64 word) option" where
  "walk_heap s current total_payload total_allocated_block_size =
     (if current + 8 < mem_end s then
        (case load s current of
           Inl e \<Rightarrow> Some (Inl e)
         | Inr raw_header \<Rightarrow>
             let header = raw_header XOR MAGIC s;
                 payload = drop_bit 32 header;
                 lower = header AND 0xFFFFFFFF;
                 block_size = lower AND NOT 15;
                 flags = lower AND 0xF
             in
             if block_size < 32 \<or> block_size mod 16 \<noteq> 0
             then Some (Inr (total_payload, total_allocated_block_size))
             else if flags AND THIS_BLOCK_ALLOCATED \<noteq> 0
             then walk_heap s (current + block_size) (total_payload + payload)
                    (total_allocated_block_size + block_size)
             else walk_heap s (current + block_size) total_payload total_allocated_block_size)
      else Some (Inr (total_payload, total_allocated_block_size)))"

declare walk_heap.simps [code]

partial_function (option) walk_quick_list ::
    "state \<Rightarrow> addr \<Rightarrow> 64 word \<Rightarrow> 64 word \<Rightarrow> (error + 64 word \<times> 64 word) option" where
  "walk_quick_list s q total_payload total_allocated_block_size =
     (if q \<noteq> NULL then
        (case load s q of
           Inl e \<Rightarrow> Some (Inl e)
         | Inr raw_header \<Rightarrow>
             let header = raw_header XOR MAGIC s;
                 payload = drop_bit 32 header;
                 lower = header AND 0xFFFFFFFF;
                 block_size = lower AND NOT 15
             in
             (case load s (next_field q) of
                Inl e \<Rightarrow> Some (Inl e)
              | Inr nxt \<Rightarrow> walk_quick_list s nxt (total_payload + payload)
                             (total_allocated_block_size + block_size)))
      else Some (Inr (total_payload, total_allocated_block_size)))"

declare walk_quick_list.simps [code]

function walk_quick_lists_from ::
    "state \<Rightarrow> nat \<Rightarrow> 64 word \<Rightarrow> 64 word \<Rightarrow> (error + 64 word \<times> 64 word) option" where
  "walk_quick_lists_from s i total_payload total_allocated_block_size =
     (if i < NUM_QUICK_LISTS then
        (case walk_quick_list s (quick_first s ! i) total_payload total_allocated_block_size of
           None \<Rightarrow> None
         | Some (Inl e) \<Rightarrow> Some (Inl e)
         | Some (Inr (tp, ts)) \<Rightarrow> walk_quick_lists_from s (i + 1) tp ts)
      else Some (Inr (total_payload, total_allocated_block_size)))"
  by pat_completeness auto
termination
  by (relation "measure (\<lambda>(s, i, p, t). NUM_QUICK_LISTS - i)") auto

definition fragmentation_totals :: "state \<Rightarrow> (error + 64 word \<times> 64 word) option" where
  "fragmentation_totals s =
     pbnd (walk_heap s (mem_start s + 40) 0 0) (\<lambda>(tp, ts).
     walk_quick_lists_from s 0 tp ts)"

definition sf_fragmentation :: "state \<Rightarrow> (error + state \<times> real) option" where
  "sf_fragmentation s =
     pbnd (fragmentation_totals s) (\<lambda>(total_payload, total_allocated_block_size).
     if total_allocated_block_size = 0 then Some (Inr (s, 0))
     else Some (Inr (s, real (unat total_payload) / real (unat total_allocated_block_size))))"

definition sf_utilization :: "state \<Rightarrow> state \<times> real" where
  "sf_utilization s =
     (if mem_start s = mem_end s then (s, 0)
      else
        let heap_size = mem_end s - mem_start s in
        if heap_size = 0 then (s, 0)
        else (s, real (unat (sf_peak_payload s)) / real (unat heap_size)))"

section \<open>Initial state and call sequences\<close>

text \<open>
  Modelled from the spec: before the first call the heap is empty
  (\<^verbatim>\<open>sf_mem_start() == sf_mem_end()\<close>), the global arrays \<^verbatim>\<open>sf_free_list_heads\<close> and
  \<^verbatim>\<open>sf_quick_lists\<close> and the two counters are zero, as C initialises objects of
  static storage. The heap and the array of list heads sit at two fixed addresses. The
  magic value, the content of memory the allocator has not written and the number of
  pages the provider will give are parameters.
\<close>

definition HEAP_BASE :: addr where "HEAP_BASE = 0x100000"
definition HEADS_BASE :: addr where "HEADS_BASE = 0x10000"

definition fresh_state :: "64 word \<Rightarrow> (addr \<Rightarrow> 64 word) \<Rightarrow> nat \<Rightarrow> state" where
  "fresh_state magic mem0 pages =
     \<lparr>mem = (\<lambda>a. if HEADS_BASE \<le> a \<and> a < HEADS_BASE + 240 then 0 else mem0 a),
      mem_start = HEAP_BASE, mem_end = HEAP_BASE, pages_left = pages, MAGIC = magic,
      sf_free_list_heads = HEADS_BASE,
      quick_length = replicate NUM_QUICK_LISTS 0,
      quick_first = replicate NUM_QUICK_LISTS NULL,
      sf_errno = 0, sf_current_payload = 0, sf_peak_payload = 0\<rparr>"

datatype call = Malloc "64 word" | Free addr | Realloc addr "64 word"

fun run :: "state \<Rightarrow> call list \<Rightarrow> (error + state \<times> addr list) option" where
  "run s [] = Some (Inr (s, []))"
| "run s (Malloc n # cs) =
     pbnd (sf_malloc s n) (\<lambda>(s1, p). pbnd (run s1 cs) (\<lambda>(s2, ps). Some (Inr (s2, p # ps))))"
| "run s (Free p # cs) =
     pbnd (sf_free s p) (\<lambda>s1. run s1 cs)"
| "run s (Realloc p n # cs) =
     pbnd (sf_realloc s p n) (\<lambda>(s1, q). pbnd (run s1 cs) (\<lambda>(s2, ps). Some (Inr (s2, q # ps))))"

text \<open>
  The two counting helpers of \<^verbatim>\<open>src/tests/sfmm_tests.c\<close>, returning the sizes they see
  in scan order instead of a count.
\<close>

partial_function (option) free_list_sizes_walk ::
    "state \<Rightarrow> addr \<Rightarrow> addr \<Rightarrow> 64 word list \<Rightarrow> (error + 64 word list) option" where
  "free_list_sizes_walk s sentinel_node bp acc =
     (if bp \<noteq> sentinel_node then
        (case load s bp of
           Inl e \<Rightarrow> Some (Inl e)
         | Inr header \<Rightarrow>
            (case load s (next_field bp) of
               Inl e \<Rightarrow> Some (Inl e)
             | Inr nxt \<Rightarrow>
                 free_list_sizes_walk s sentinel_node nxt
                   (acc @ [(header XOR MAGIC s) AND NOT 0xffffffff0000000f])))
      else Some (Inr acc))"

declare free_list_sizes_walk.simps [code]

function free_block_sizes_from :: "state \<Rightarrow> nat \<Rightarrow> 64 word list \<Rightarrow> (error + 64 word list) option" where
  "free_block_sizes_from s i acc =
     (if i < NUM_FREE_LISTS then
        (case load s (next_field (sentinel s i)) of
           Inl e \<Rightarrow> Some (Inl e)
         | Inr first \<Rightarrow>
            (case free_list_sizes_walk s (sentinel s i) first acc of
               None \<Rightarrow> None
             | Some (Inl e) \<Rightarrow> Some (Inl e)
             | Some (Inr acc') \<Rightarrow> free_block_sizes_from s (i + 1) acc'))
      else Some (Inr acc))"
  by pat_completeness auto
termination
  by (relation "measure (\<lambda>(s, i, a). NUM_FREE_LISTS - i)") auto

definition free_block_sizes :: "state \<Rightarrow> (error + 64 word list) option" where
  "free_block_sizes s = free_block_sizes_from s 0 []"

partial_function (option) quick_list_sizes_walk ::
    "state \<Rightarrow> addr \<Rightarrow> 64 word list \<Rightarrow> (error + 64 word list) option" where
  "quick_list_sizes_walk s bp acc =
     (if bp \<noteq> NULL then
        (case load s bp of
           Inl e \<Rightarrow> Some (Inl e)
         | Inr header \<Rightarrow>
            (case load s (next_field bp) of
               Inl e \<Rightarrow> Some (Inl e)
             | Inr nxt \<Rightarrow>
                 quick_list_sizes_walk s nxt
                   (acc @ [(header XOR MAGIC s) AND NOT 0xffffffff0000000f])))
      else Some (Inr acc))"

declare quick_list_sizes_walk.simps [code]

function quick_block_sizes_from :: "state \<Rightarrow> nat \<Rightarrow> 64 word list \<Rightarrow> (error + 64 word list) option" where
  "quick_block_sizes_from s i acc =
     (if i < NUM_QUICK_LISTS then
        (case quick_list_sizes_walk s (quick_first s ! i) acc of
           None \<Rightarrow> None
         | Some (Inl e) \<Rightarrow> Some (Inl e)
         | Some (Inr acc') \<Rightarrow> quick_block_sizes_from s (i + 1) acc')
      else Some (Inr acc))"
  by pat_completeness auto
termination
  by (relation "measure (\<lambda>(s, i, a). NUM_QUICK_LISTS - i)") auto

definition quick_block_sizes :: "state \<Rightarrow> (error + 64 word list) option" where
  "quick_block_sizes s = quick_block_sizes_from s 0 []"


definition example_state :: state where
  "example_state = fresh_state 0x0123456789abcdef (\<lambda>_. 0) 37"

text \<open>The state a sequence of calls leaves when it is run from \<open>example_state\<close>.\<close>

definition state_after :: "call list \<Rightarrow> state" where
  "state_after cs = (case run example_state cs of Some (Inr (s, ps)) \<Rightarrow> s | _ \<Rightarrow> example_state)"

text \<open>
  The checks the specification lists for \<^verbatim>\<open>free\<close>, in its words: the pointer lies in
  \<open>[prologue_end + 8, epilogue_start)\<close>, it is 16-byte aligned, the header decodes to a
  block size of at least 32 that is a multiple of 16, the block lies entirely within the
  heap, \<^verbatim>\<open>ALLOCATED\<close> is set and \<^verbatim>\<open>IN_QUICK_LIST\<close> is clear.
\<close>

definition claimed_free_checks :: "state \<Rightarrow> addr \<Rightarrow> bool" where
  "claimed_free_checks s p \<longleftrightarrow>
     (let decoded = mem s (p - 8) XOR MAGIC s;
          block_size = (decoded AND 0xFFFFFFFF) AND NOT 15;
          prologue_end = mem_start s + 8 + 32;
          epilogue_start = mem_end s - 8
      in prologue_end + 8 \<le> p \<and> p < epilogue_start \<and> p mod 16 = 0
         \<and> block_size \<ge> 32 \<and> block_size mod 16 = 0
         \<and> unat (p - 8) + unat block_size \<le> unat epilogue_start
         \<and> decoded AND THIS_BLOCK_ALLOCATED \<noteq> 0 \<and> decoded AND IN_QUICK_LIST = 0)"

text \<open>
  What the header word at a block address says: the block size, and whether the block
  is free and not in a quick list (neither flag set).
\<close>

definition block_size_at :: "state \<Rightarrow> addr \<Rightarrow> 64 word" where
  "block_size_at s b = ((mem s b XOR MAGIC s) AND 0xFFFFFFFF) AND NOT 15"

definition free_not_quick :: "state \<Rightarrow> addr \<Rightarrow> bool" where
  "free_not_quick s b \<longleftrightarrow>
     (mem s b XOR MAGIC s) AND THIS_BLOCK_ALLOCATED = 0
     \<and> (mem s b XOR MAGIC s) AND IN_QUICK_LIST = 0"

section \<open>Evaluation rules\<close>

lemma bnd_simps [simp]: "bnd (Inl e) f = Inl e" "bnd (Inr x) f = f x"
  by (simp_all add: bnd_def)

lemma bnd_cong_weak [cong]: "m = m' \<Longrightarrow> bnd m f = bnd m' f"
  by simp

lemma pbnd_simps [simp]:
  "pbnd None g = None" "pbnd (Some (Inl e)) g = Some (Inl e)" "pbnd (Some (Inr x)) g = g x"
  by (simp_all add: pbnd_def)

lemma pbnd_cong_weak [cong]: "m = m' \<Longrightarrow> pbnd m f = pbnd m' f"
  by simp

lemma xor_magic_cancel [simp]: "(x XOR m) XOR m = (x :: 64 word)"
  by (simp add: xor.assoc)

lemmas layout_defs = PAGE_SZ_def NUM_FREE_LISTS_def NUM_QUICK_LISTS_def QUICK_LIST_MAX_def
  THIS_BLOCK_ALLOCATED_def IN_QUICK_LIST_def ENOMEM_def EINVAL_def NULL_def next_field_def
  prev_field_def payload_field_def sentinel_def null_page_def HEAP_BASE_def HEADS_BASE_def

lemmas routine_defs = load_def store_def sf_mem_grow_def get_free_list_index_for_size_def
  initialize_all_free_list_sentinels_def initialize_all_quick_lists_def
  calculate_aligned_block_size_def find_first_free_block_that_fits_def
  insert_block_into_free_list_def split_free_block_if_necessary_def
  remove_block_from_free_list_def mark_block_as_allocated_def extend_heap_by_one_page_def
  initialize_heap_during_first_call_to_sf_malloc_def coalesce_adjacent_free_blocks_def
  sf_malloc_def sf_free_def sf_realloc_def fragmentation_totals_def sf_fragmentation_def
  sf_utilization_def free_block_sizes_def quick_block_sizes_def

lemmas loop_simps = walk_free_list.simps flush_quick_list.simps extend_until_fit.simps
  walk_heap.simps walk_quick_list.simps free_list_sizes_walk.simps quick_list_sizes_walk.simps

lemmas run_code = fresh_state_def layout_defs routine_defs loop_simps Let_def

section \<open>Word facts\<close>





section \<open>Validation in \<^verbatim>\<open>sf_free\<close>\<close>








section \<open>Facts shared by the claims\<close>



lemma state_after_holds:
  assumes "(case run example_state cs of Some (Inr (s, ps)) \<Rightarrow> P s | _ \<Rightarrow> False)"
  shows "P (state_after cs)"
  using assms by (auto simp: state_after_def split: option.splits sum.splits)

text \<open>
  The heap after \<^verbatim>\<open>sf_malloc(8); sf_malloc(200); sf_malloc(8)\<close>: blocks of 32, 224 and 32
  bytes at \<open>heap_start + 40\<close>, \<open>+ 72\<close> and \<open>+ 296\<close>, then a free block of 3760 bytes.
\<close>

lemma three_block_heap:
  "mem_start (state_after [Malloc 8, Malloc 200, Malloc 8]) = HEAP_BASE
   \<and> mem_end (state_after [Malloc 8, Malloc 200, Malloc 8]) = HEAP_BASE + 4096
   \<and> quick_length (state_after [Malloc 8, Malloc 200, Malloc 8]) = replicate 10 0
   \<and> mem (state_after [Malloc 8, Malloc 200, Malloc 8]) (HEAP_BASE + 40)
       = (push_bit 32 8 OR 32 OR 1) XOR MAGIC (state_after [Malloc 8, Malloc 200, Malloc 8])
   \<and> mem (state_after [Malloc 8, Malloc 200, Malloc 8]) (HEAP_BASE + 64)
       = (push_bit 32 8 OR 32 OR 1) XOR MAGIC (state_after [Malloc 8, Malloc 200, Malloc 8])
   \<and> mem (state_after [Malloc 8, Malloc 200, Malloc 8]) (HEAP_BASE + 72)
       = (push_bit 32 200 OR 224 OR 1) XOR MAGIC (state_after [Malloc 8, Malloc 200, Malloc 8])
   \<and> mem (state_after [Malloc 8, Malloc 200, Malloc 8]) (HEAP_BASE + 296)
       = (push_bit 32 8 OR 32 OR 1) XOR MAGIC (state_after [Malloc 8, Malloc 200, Malloc 8])
   \<and> mem (state_after [Malloc 8, Malloc 200, Malloc 8]) (HEAP_BASE + 328)
       = 3760 XOR MAGIC (state_after [Malloc 8, Malloc 200, Malloc 8])"
proof -
  have "(case run example_state [Malloc 8, Malloc 200, Malloc 8] of
           Some (Inr (s, ps)) \<Rightarrow>
             mem_start s = HEAP_BASE \<and> mem_end s = HEAP_BASE + 4096
             \<and> quick_length s = replicate 10 0
             \<and> mem s (HEAP_BASE + 40) = (push_bit 32 8 OR 32 OR 1) XOR MAGIC s
             \<and> mem s (HEAP_BASE + 64) = (push_bit 32 8 OR 32 OR 1) XOR MAGIC s
             \<and> mem s (HEAP_BASE + 72) = (push_bit 32 200 OR 224 OR 1) XOR MAGIC s
             \<and> mem s (HEAP_BASE + 296) = (push_bit 32 8 OR 32 OR 1) XOR MAGIC s
             \<and> mem s (HEAP_BASE + 328) = 3760 XOR MAGIC s
         | _ \<Rightarrow> False)"
    by (simp add: example_state_def run_code)
  then show ?thesis
    by (rule state_after_holds)
qed


lemma errno_differs: "s1\<lparr>sf_errno := ENOMEM\<rparr> \<noteq> s\<lparr>sf_errno := EINVAL\<rparr>"
proof
  assume "s1\<lparr>sf_errno := ENOMEM\<rparr> = s\<lparr>sf_errno := EINVAL\<rparr>"
  then have "sf_errno (s1\<lparr>sf_errno := ENOMEM\<rparr>) = sf_errno (s\<lparr>sf_errno := EINVAL\<rparr>)"
    by (rule arg_cong)
  then show False
    by (simp add: ENOMEM_def EINVAL_def)
qed

text \<open>
  When the heap is set up, no block fits and the provider has no page left,
  \<^verbatim>\<open>sf_malloc\<close> returns null and sets \<^verbatim>\<open>ENOMEM\<close>, changing nothing else.
\<close>

lemma malloc_returns_null_when_extension_refused:
  assumes "n \<noteq> 0" and "mem_start s \<noteq> mem_end s" and "pages_left s = 0"
    and "find_first_free_block_that_fits s (calculate_aligned_block_size n) = Some (Inr NULL)"
  shows "sf_malloc s n = Some (Inr (s\<lparr>sf_errno := ENOMEM\<rparr>, NULL))"
  using assms
  by (simp add: sf_malloc_def extend_until_fit.simps extend_heap_by_one_page_def
        sf_mem_grow_def Let_def)

section \<open>The claims\<close>

text \<open>
  C1. On a fresh heap whose provider has a page to give, bootstrap lays down the
  prologue header (size 32, allocated) at \<open>heap_start + 8\<close> and the epilogue header
  (size 8, allocated) in the last word of the page, and leaves exactly one free block,
  of size 4048, and no quick-list block. \<^verbatim>\<open>sf_malloc(4)\<close> on the fresh heap returns the
  non-null pointer \<open>heap_start + 48\<close>; afterwards the heap is one page, the free lists
  hold exactly one block, of size 4016, and the quick lists hold none. This holds for
  every magic value and every initial content of memory.
\<close>

theorem first_allocate_on_fresh_heap:
  "(case initialize_heap_during_first_call_to_sf_malloc (fresh_state magic mem0 (Suc n)) of
      Inr s \<Rightarrow> mem s (HEAP_BASE + 8) XOR magic = 32 OR THIS_BLOCK_ALLOCATED
            \<and> mem s (mem_end s - 8) XOR magic = 8 OR THIS_BLOCK_ALLOCATED
            \<and> mem_start s = HEAP_BASE \<and> mem_end s = HEAP_BASE + PAGE_SZ
            \<and> free_block_sizes s = Some (Inr [4048])
            \<and> quick_block_sizes s = Some (Inr [])
    | Inl e \<Rightarrow> False) \<and>
   (case sf_malloc (fresh_state magic mem0 (Suc n)) 4 of
      Some (Inr (s, p)) \<Rightarrow> p \<noteq> NULL \<and> p = HEAP_BASE + 48
         \<and> mem_end s - mem_start s = PAGE_SZ
         \<and> free_block_sizes s = Some (Inr [4016])
         \<and> quick_block_sizes s = Some (Inr [])
         \<and> quick_length s = replicate NUM_QUICK_LISTS 0
    | _ \<Rightarrow> False)"
  by (simp add: run_code)


text \<open>
  C2. \<^verbatim>\<open>sf_fragmentation\<close> adds every quick-list block twice: once in the heap walk,
  where its \<^verbatim>\<open>ALLOCATED\<close> bit counts it, and once more in the loop over the quick
  lists. After \<^verbatim>\<open>a = sf_malloc(8); sf_malloc(100); sf_free(a)\<close> the blocks with
  \<^verbatim>\<open>ALLOCATED\<close> set have payloads 8 and 100 and sizes 32 and 128, a quotient of
  108/160; the code's totals are 116 and 192.
\<close>

theorem fragmentation_counts_quick_block_twice:
  "(case run (fresh_state magic mem0 (Suc n)) [Malloc 8, Malloc 100, Free (HEAP_BASE + 48)] of
      Some (Inr (s, ps)) \<Rightarrow> ps = [HEAP_BASE + 48, HEAP_BASE + 80]
         \<and> quick_block_sizes s = Some (Inr [32])
         \<and> fragmentation_totals s = Some (Inr (116, 192))
         \<and> sf_fragmentation s = Some (Inr (s, 116 / 192))
    | _ \<Rightarrow> False)"
  by (simp add: run_code)

text \<open>
  The example of the same claim, where no block is in a quick list, is as the claim
  has it: after \<^verbatim>\<open>sf_malloc(24); sf_malloc(100); sf_malloc(40)\<close> the result is 164/240.
\<close>

lemma fragmentation_three_allocations:
  "(case run (fresh_state magic mem0 (Suc n)) [Malloc 24, Malloc 100, Malloc 40] of
      Some (Inr (s, ps)) \<Rightarrow> sf_fragmentation s = Some (Inr (s, 164 / 240))
    | _ \<Rightarrow> False)"
  by (simp add: run_code)

text \<open>
  C3. \<^verbatim>\<open>mark_block_as_allocated\<close> clears \<^verbatim>\<open>IN_QUICK_LIST\<close> in the header of the block
  that follows the one it allocates. After
  \<^verbatim>\<open>sf_malloc(1); a = sf_malloc(200); b = sf_malloc(8); sf_free(b); sf_free(a); sf_malloc(200)\<close>
  the block of \<open>b\<close> is still the head of quick list 0, whose length is 1, and its header
  no longer has \<^verbatim>\<open>IN_QUICK_LIST\<close> set.
\<close>

theorem allocate_clears_quick_flag_of_next_block:
  "(case run (fresh_state magic mem0 (Suc n))
            [Malloc 1, Malloc 200, Malloc 8, Free (HEAP_BASE + 304), Free (HEAP_BASE + 80),
             Malloc 200] of
      Some (Inr (s, ps)) \<Rightarrow>
         ps = [HEAP_BASE + 48, HEAP_BASE + 80, HEAP_BASE + 304, HEAP_BASE + 80]
         \<and> quick_first s ! 0 = HEAP_BASE + 304 - 8 \<and> quick_length s ! 0 = 1
         \<and> (mem s (HEAP_BASE + 304 - 8) XOR MAGIC s) AND IN_QUICK_LIST = 0
         \<and> (mem s (HEAP_BASE + 304 - 8) XOR MAGIC s) AND THIS_BLOCK_ALLOCATED = 1
    | _ \<Rightarrow> False)"
  by (simp add: run_code)




text \<open>
  C5. When the provider refuses the very first page,
  \<^verbatim>\<open>initialize_heap_during_first_call_to_sf_malloc\<close> sets \<^verbatim>\<open>ENOMEM\<close> and returns, and
  \<^verbatim>\<open>sf_malloc\<close> goes on to search the free lists, whose sentinels were never set up:
  the \<^verbatim>\<open>next\<close> link of the sentinel is null and the search reads through it. The call
  ends in a memory fault and returns nothing.
\<close>

theorem malloc_faults_when_first_page_refused:
  "sf_malloc (fresh_state magic mem0 0) 1 = Some (Inl Segfault)"
  by (simp add: run_code)

text \<open>
  C6. \<^verbatim>\<open>calculate_aligned_block_size\<close> has no overflow check. For the request
  \<open>2^64 - 1\<close> the sum with 16 wraps to 15, the block size is 32, and \<^verbatim>\<open>sf_malloc\<close> on a
  fresh heap returns a non-null pointer to a 32-byte block and leaves the error sink
  at 0.
\<close>

theorem malloc_overflowing_size_succeeds:
  "(case sf_malloc (fresh_state magic mem0 (Suc n)) 0xFFFFFFFFFFFFFFFF of
      Some (Inr (s, p)) \<Rightarrow> p = HEAP_BASE + 48 \<and> p \<noteq> NULL \<and> sf_errno s = 0
         \<and> ((mem s (p - 8) XOR magic) AND 0xFFFFFFFF) AND NOT 15 = 32
         \<and> free_block_sizes s = Some (Inr [4016])
    | _ \<Rightarrow> False)"
  by (simp add: run_code)

text \<open>
  C7, as stated, fails: \<^verbatim>\<open>sf_realloc\<close> validates the range of the pointer and the two
  flags of its header, and nothing else.

  After \<^verbatim>\<open>p = sf_malloc(4)\<close> the pointer \<open>p + 24\<close> is not 16-byte aligned and fails the
  checks the claim lists; \<^verbatim>\<open>sf_realloc(p + 24, 1)\<close> returns \<open>p + 24\<close> with the error sink
  at 0, has lowered \<^verbatim>\<open>sf_current_payload\<close> from 4 to 1 and has rewritten the footer of the
  block.

  With the magic value 1 a word that was never written decodes to an allocated block
  of size 0. After \<^verbatim>\<open>p = sf_malloc(40)\<close> on a fresh heap the 16-byte aligned pointer
  \<open>p + 32\<close> has such a word for its header: \<^verbatim>\<open>sf_free(p + 32)\<close> aborts on the size, while
  \<^verbatim>\<open>sf_realloc(p + 32, 1)\<close> accepts the pointer, allocates a new block and ends in the
  abort of the \<^verbatim>\<open>sf_free\<close> it calls, not in \<^verbatim>\<open>EINVAL\<close>.

  With the magic value \<open>0x2001\<close> that word decodes to an allocated block of 8192 bytes,
  more than the heap holds: \<^verbatim>\<open>sf_free(p + 32)\<close> aborts on the extent, while
  \<^verbatim>\<open>sf_realloc(p + 32, 8176)\<close> returns \<open>p + 32\<close> with the error sink at 0 and has raised
  \<^verbatim>\<open>sf_current_payload\<close> from 40 to 8216.
\<close>

theorem realloc_accepts_what_free_rejects:
  "(case run example_state [Malloc 4] of
      Some (Inr (s, ps)) \<Rightarrow>
        ps = [HEAP_BASE + 48] \<and> (HEAP_BASE + 48 + 24) mod 16 = 8
        \<and> \<not> claimed_free_checks s (HEAP_BASE + 48 + 24)
        \<and> sf_current_payload s = 4
        \<and> (case sf_realloc s (HEAP_BASE + 48 + 24) 1 of
              Some (Inr (s', q)) \<Rightarrow>
                q = HEAP_BASE + 48 + 24 \<and> sf_errno s' = 0 \<and> sf_current_payload s' = 1
                \<and> mem s' (HEAP_BASE + 48 + 24 - 8) \<noteq> mem s (HEAP_BASE + 48 + 24 - 8)
            | _ \<Rightarrow> False)
    | _ \<Rightarrow> False)
   \<and> (case sf_malloc (fresh_state 1 (\<lambda>_. 0) 1) 40 of
         Some (Inr (s, p)) \<Rightarrow>
           p = HEAP_BASE + 48 \<and> (p + 32) mod 16 = 0 \<and> block_size_at s (p + 32 - 8) = 0
           \<and> \<not> claimed_free_checks s (p + 32)
           \<and> sf_free s (p + 32) = Some (Inl Abort)
           \<and> sf_realloc s (p + 32) 1 = Some (Inl Abort)
       | _ \<Rightarrow> False)
   \<and> (case sf_malloc (fresh_state 0x2001 (\<lambda>_. 0) 1) 40 of
         Some (Inr (s, p)) \<Rightarrow>
           p = HEAP_BASE + 48 \<and> (p + 32) mod 16 = 0 \<and> block_size_at s (p + 32 - 8) = 8192
           \<and> mem_end s = HEAP_BASE + 4096
           \<and> \<not> claimed_free_checks s (p + 32)
           \<and> sf_free s (p + 32) = Some (Inl Abort)
           \<and> sf_current_payload s = 40
           \<and> (case sf_realloc s (p + 32) 8176 of
                 Some (Inr (s', q)) \<Rightarrow>
                   q = p + 32 \<and> sf_errno s' = 0 \<and> sf_current_payload s' = 8216
               | _ \<Rightarrow> False)
       | _ \<Rightarrow> False)"
proof -
  have a: "(case run example_state [Malloc 4] of
      Some (Inr (s, ps)) \<Rightarrow>
        ps = [HEAP_BASE + 48] \<and> (HEAP_BASE + 48 + 24) mod 16 = 8
        \<and> \<not> claimed_free_checks s (HEAP_BASE + 48 + 24)
        \<and> sf_current_payload s = 4
        \<and> (case sf_realloc s (HEAP_BASE + 48 + 24) 1 of
              Some (Inr (s', q)) \<Rightarrow>
                q = HEAP_BASE + 48 + 24 \<and> sf_errno s' = 0 \<and> sf_current_payload s' = 1
                \<and> mem s' (HEAP_BASE + 48 + 24 - 8) \<noteq> mem s (HEAP_BASE + 48 + 24 - 8)
            | _ \<Rightarrow> False)
    | _ \<Rightarrow> False)"
    by (simp add: example_state_def claimed_free_checks_def run_code)
  have b: "(case sf_malloc (fresh_state 1 (\<lambda>_. 0) 1) 40 of
         Some (Inr (s, p)) \<Rightarrow>
           p = HEAP_BASE + 48 \<and> (p + 32) mod 16 = 0 \<and> block_size_at s (p + 32 - 8) = 0
           \<and> \<not> claimed_free_checks s (p + 32)
           \<and> sf_free s (p + 32) = Some (Inl Abort)
           \<and> sf_realloc s (p + 32) 1 = Some (Inl Abort)
       | _ \<Rightarrow> False)"
    by (simp add: claimed_free_checks_def block_size_at_def memcpy_def run_code)
  have c: "(case sf_malloc (fresh_state 0x2001 (\<lambda>_. 0) 1) 40 of
         Some (Inr (s, p)) \<Rightarrow>
           p = HEAP_BASE + 48 \<and> (p + 32) mod 16 = 0 \<and> block_size_at s (p + 32 - 8) = 8192
           \<and> mem_end s = HEAP_BASE + 4096
           \<and> \<not> claimed_free_checks s (p + 32)
           \<and> sf_free s (p + 32) = Some (Inl Abort)
           \<and> sf_current_payload s = 40
           \<and> (case sf_realloc s (p + 32) 8176 of
                 Some (Inr (s', q)) \<Rightarrow>
                   q = p + 32 \<and> sf_errno s' = 0 \<and> sf_current_payload s' = 8216
               | _ \<Rightarrow> False)
       | _ \<Rightarrow> False)"
    by (simp add: claimed_free_checks_def block_size_at_def run_code)
  from a b c show ?thesis
    by (intro conjI)
qed

text \<open>
  C7, amended. For a non-null pointer \<open>pp\<close> and a positive new size, \<^verbatim>\<open>sf_realloc\<close> rejects
  the pointer exactly when it lies outside \<open>[heap_start + 40, heap_end)\<close>, or the header
  word before it can be read and has \<^verbatim>\<open>ALLOCATED\<close> clear or \<^verbatim>\<open>IN_QUICK_LIST\<close> set. To
  reject is to set the error sink to \<^verbatim>\<open>EINVAL\<close> and return null with nothing else of the
  state changed: memory, free lists, quick lists and both usage counters are as before.
  The alignment of the pointer, the block size and the extent of the block are not
  validated.
\<close>

theorem realloc_validation:
  assumes "pp \<noteq> NULL" and "rsize \<noteq> 0"
  shows "sf_realloc s pp rsize = Some (Inr (s\<lparr>sf_errno := EINVAL\<rparr>, NULL)) \<longleftrightarrow>
           pp < mem_start s + 40 \<or> pp \<ge> mem_end s
           \<or> (\<not> null_page (pp - 8)
              \<and> ((mem s (pp - 8) XOR MAGIC s) AND THIS_BLOCK_ALLOCATED = 0
                 \<or> (mem s (pp - 8) XOR MAGIC s) AND IN_QUICK_LIST \<noteq> 0))"
  using assms errno_differs
  by (auto simp: sf_realloc_def load_def store_def Let_def pbnd_def bnd_def
        split: if_splits sum.splits prod.splits option.splits)

theorem realloc_validation_witness:
  "sf_realloc (state_after [Malloc 8, Malloc 200, Malloc 8]) (HEAP_BASE + 336) 1
     = Some (Inr ((state_after [Malloc 8, Malloc 200, Malloc 8])\<lparr>sf_errno := EINVAL\<rparr>, NULL))
   \<and> sf_realloc (state_after [Malloc 8, Malloc 200, Malloc 8]) (HEAP_BASE + 80) 1
     \<noteq> Some (Inr ((state_after [Malloc 8, Malloc 200, Malloc 8])\<lparr>sf_errno := EINVAL\<rparr>, NULL))"
  using realloc_validation [of "HEAP_BASE + 336" 1 "state_after [Malloc 8, Malloc 200, Malloc 8]"]
    realloc_validation [of "HEAP_BASE + 80" 1 "state_after [Malloc 8, Malloc 200, Malloc 8]"]
    three_block_heap
  by (simp add: layout_defs)

text \<open>
  C8. \<^verbatim>\<open>sf_malloc\<close> records the requested block size even when it does not split, so a
  block taken whole with 16 bytes to spare keeps the old free footer in its last word.
  \<^verbatim>\<open>extend_heap_by_one_page\<close> trusts that footer. After
  \<^verbatim>\<open>sf_malloc(1); a = sf_malloc(200); b = sf_malloc(3760); sf_free(a); sf_malloc(8000)\<close>
  on a provider with two pages, the last call has returned null, and the heap walk
  from the prologue finds the block of 32, then the free block of \<open>a\<close> (size 224) and,
  directly after it, a free block of 7888 bytes that starts where \<open>b\<close> does: two adjacent
  blocks that are free and in no quick list.
\<close>

theorem extension_leaves_adjacent_free_blocks:
  "(case run (fresh_state magic mem0 2)
            [Malloc 1, Malloc 200, Malloc 3760, Free (HEAP_BASE + 80), Malloc 8000] of
      Some (Inr (s, ps)) \<Rightarrow>
         ps = [HEAP_BASE + 48, HEAP_BASE + 80, HEAP_BASE + 304, NULL]
         \<and> sf_errno s = ENOMEM
         \<and> block_size_at s (HEAP_BASE + 40) = 32
         \<and> block_size_at s (HEAP_BASE + 40 + 32) = 224
         \<and> free_not_quick s (HEAP_BASE + 40 + 32)
         \<and> block_size_at s (HEAP_BASE + 40 + 32 + 224) = 7888
         \<and> free_not_quick s (HEAP_BASE + 40 + 32 + 224)
         \<and> HEAP_BASE + 40 + 32 + 224 + 7888 = mem_end s - 8
         \<and> free_block_sizes s = Some (Inr [224, 7888])
         \<and> quick_block_sizes s = Some (Inr [])
    | _ \<Rightarrow> False)"
  by (simp add: block_size_at_def free_not_quick_def run_code)

text \<open>
  C9. For the request \<open>2^64 - 1\<close>, which \<^verbatim>\<open>sf_malloc\<close> serves (see C6), the counter is
  raised by the whole request while the header keeps only its low 32 bits, and
  \<^verbatim>\<open>sf_free\<close> lowers the counter by what the header holds. After the two calls on a
  fresh heap \<^verbatim>\<open>sf_current_payload\<close> is \<open>2^64 - 2^32\<close>, not the 0 it was.
\<close>

theorem allocate_free_overflowing_size_changes_payload:
  "(case run (fresh_state magic mem0 (Suc n))
            [Malloc 0xFFFFFFFFFFFFFFFF, Free (HEAP_BASE + 48)] of
      Some (Inr (s, ps)) \<Rightarrow> ps = [HEAP_BASE + 48] \<and> sf_current_payload s = 0xFFFFFFFF00000000
         \<and> sf_current_payload (fresh_state magic mem0 (Suc n)) = 0
    | _ \<Rightarrow> False)"
  by (simp add: run_code)

text \<open>
  C10. \<^verbatim>\<open>sf_fragmentation\<close> and \<^verbatim>\<open>sf_utilization\<close> only read: whenever they return, the
  state they return in (memory, heap bounds, free lists, quick lists, both counters and
  the error sink) is the state they were called in.
\<close>

theorem observers_leave_state_unchanged:
  "(sf_fragmentation s = Some (Inr (s', r)) \<longrightarrow> s' = s) \<and> fst (sf_utilization s) = s"
  by (auto simp: sf_fragmentation_def sf_utilization_def pbnd_def Let_def
           split: option.splits sum.splits prod.splits if_splits)

theorem observers_leave_state_unchanged_witness:
  "sf_fragmentation example_state = Some (Inr (example_state, 0))
   \<and> fst (sf_utilization example_state) = example_state"
  using observers_leave_state_unchanged [of example_state example_state 0]
  by (simp add: example_state_def run_code)


section \<open>Further properties of the code\<close>

text \<open>
  A block taken whole with 16 bytes to spare is handed out a second time. On a fresh
  heap \<^verbatim>\<open>sf_malloc(4016)\<close> takes the free block of 4048 bytes unsplit and records a size
  of 4032; the next \<^verbatim>\<open>sf_malloc(1)\<close> extends the heap, merges the new page with the
  block the stale footer points to, and returns the same pointer again.
\<close>

theorem unsplit_block_is_allocated_twice:
  "(case run (fresh_state magic mem0 (Suc (Suc n))) [Malloc 4016, Malloc 1] of
      Some (Inr (s, ps)) \<Rightarrow> ps = [HEAP_BASE + 48, HEAP_BASE + 48]
    | _ \<Rightarrow> False)"
  by (simp add: run_code)

text \<open>
  \<^verbatim>\<open>flush_quick_list\<close> computes the footer address from the decoded header with only
  its low four bits cleared, so the payload field in the high half of the word is part
  of the block size it uses. Whenever that address lies outside the heap, as it does
  for a block with a payload field other than 0 in a heap smaller than 4 GiB, the flush
  of a non-empty list aborts.
\<close>

theorem flush_quick_list_aborts:
  assumes "quick_length s ! i > 0"
    and "\<not> null_page (quick_first s ! i)" and "\<not> null_page (quick_first s ! i + 8)"
    and "quick_first s ! i + ((mem s (quick_first s ! i) XOR MAGIC s) AND NOT 15) - 8 < mem_start s
         \<or> quick_first s ! i + ((mem s (quick_first s ! i) XOR MAGIC s) AND NOT 15) - 8 \<ge> mem_end s"
  shows "flush_quick_list s i = Some (Inl Abort)"
  using assms
  by (subst flush_quick_list.simps) (auto simp: load_def store_def next_field_def Let_def)

theorem flush_quick_list_aborts_witness:
  "flush_quick_list
     (example_state\<lparr>mem := (mem example_state)
                       (HEAP_BASE + 40 := (push_bit 32 8 OR 32 OR 5) XOR MAGIC example_state),
                    mem_end := HEAP_BASE + PAGE_SZ,
                    quick_length := [1, 0, 0, 0, 0, 0, 0, 0, 0, 0],
                    quick_first := [HEAP_BASE + 40, 0, 0, 0, 0, 0, 0, 0, 0, 0]\<rparr>) 0
   = Some (Inl Abort)"
  by (rule flush_quick_list_aborts)
     (simp_all add: example_state_def fresh_state_def layout_defs)

end
